theory Spec2Isabelle
  imports Main "HOL-Library.Sublist" "HOL-Library.Word"
begin

section \<open>Go values used by the provider\<close>

text \<open>
  A Go \<open>string\<close> is a sequence of bytes; it is modelled as \<open>string\<close> (a list of
  8-bit characters). Run-time panics are values: every function that can panic
  returns \<open>panic + 'a\<close>, with \<open>Inl\<close> for the panic.
\<close>

datatype panic =
    SliceBoundsOutOfRange     \<comment> \<open>\<open>s[:j]\<close> or \<open>s[i:]\<close> with a bound outside \<open>0..len(s)\<close>\<close>
  | IndexOutOfRange           \<comment> \<open>\<open>s[i]\<close> with \<open>i\<close> outside \<open>0..len(s)-1\<close>\<close>
  | InterfaceConversion       \<comment> \<open>a single-value type assertion \<open>v.(T)\<close> that fails\<close>
  | NilPointerDereference     \<comment> \<open>a method call through a nil pointer\<close>

definition bindP :: "panic + 'a \<Rightarrow> ('a \<Rightarrow> panic + 'b) \<Rightarrow> panic + 'b" where
  "bindP m f = (case m of Inl p \<Rightarrow> Inl p | Inr x \<Rightarrow> f x)"

subsection \<open>The functions of package \<open>strings\<close> that the provider calls\<close>

text \<open>
  \<open>strings.Index(s, substr)\<close> is the index of the first instance of \<open>substr\<close> in
  \<open>s\<close>, or \<open>-1\<close> when there is none; the empty \<open>substr\<close> is found at index 0.
\<close>

fun Index :: "string \<Rightarrow> string \<Rightarrow> int" where
  "Index [] substr = (if substr = [] then 0 else -1)"
| "Index (c # cs) substr =
     (if prefix substr (c # cs) then 0
      else (let r = Index cs substr in if r < 0 then -1 else r + 1))"

text \<open>
  \<open>strings.IndexRune(s, r)\<close> for a rune below \<open>0x80\<close> is the index of the first
  byte equal to it, or \<open>-1\<close>. The provider calls it with the space character only.
\<close>

fun IndexRune :: "string \<Rightarrow> char \<Rightarrow> int" where
  "IndexRune [] r = -1"
| "IndexRune (c # cs) r =
     (if c = r then 0
      else (let i = IndexRune cs r in if i < 0 then -1 else i + 1))"

definition Contains :: "string \<Rightarrow> string \<Rightarrow> bool" where
  "Contains s substr = (0 \<le> Index s substr)"

text \<open>The slice expressions \<open>s[i:]\<close> and \<open>s[:j]\<close> with their bounds checks.\<close>

definition slice_from :: "string \<Rightarrow> int \<Rightarrow> panic + string" where
  "slice_from s i =
     (if 0 \<le> i \<and> i \<le> int (length s) then Inr (drop (nat i) s)
      else Inl SliceBoundsOutOfRange)"

definition slice_to :: "string \<Rightarrow> int \<Rightarrow> panic + string" where
  "slice_to s j =
     (if 0 \<le> j \<and> j \<le> int (length s) then Inr (take (nat j) s)
      else Inl SliceBoundsOutOfRange)"

subsection \<open>Formatting\<close>

text \<open>
  The verb \<open>%d\<close> of \<open>fmt\<close> on an unsigned number: its decimal digits, without
  leading zeros.
\<close>

fun Itoa :: "nat \<Rightarrow> string" where
  "Itoa n = (if n < 10 then [''0123456789'' ! n]
             else Itoa (n div 10) @ [''0123456789'' ! (n mod 10)])"

subsection \<open>Errors\<close>

text \<open>
  A Go \<open>error\<close> is one of: an error reported by the MySQL server (the driver's
  \<open>*mysql.MySQLError\<close>, with its 16-bit number and message), the sentinel
  \<open>sql.ErrNoRows\<close>, an error made by \<open>fmt.Errorf\<close> or \<open>errors.New\<close> (a
  message only), or any other error of a library, known by its text.
\<close>

datatype error =
    MySQLError (Number: "16 word") (Message: string)
  | ErrNoRows
  | ErrorString string
  | LibraryError string

text \<open>The method \<open>Error()\<close>, which the verb \<open>%s\<close> calls on an error.\<close>

fun Error :: "error \<Rightarrow> string" where
  "Error (MySQLError n m) = ''Error '' @ Itoa (unat n) @ '': '' @ m"
| "Error ErrNoRows = ''sql: no rows in result set''"
| "Error (ErrorString s) = s"
| "Error (LibraryError s) = s"

section \<open>The plugin SDK: schemas and resource data\<close>

text \<open>
  \<open>schema.ResourceData\<close> belongs to the SDK. The provider uses four of its
  methods, modelled from their documented behaviour:
  \<^item> \<open>Get(key)\<close> returns the value of the attribute, the zero value of its type
    when it is not set, and \<open>nil\<close> when the schema declares no such key;
  \<^item> \<open>Set(key, value)\<close> stores the value, or returns an error and stores nothing
    when the key is not declared or the value has not the attribute's type;
  \<^item> \<open>Id()\<close> and \<open>SetId(v)\<close> read and write the resource ID.
  The attributes held by the resource data are the values as the SDK has merged
  them from the configuration, the defaults of the schema and the state; an
  attribute that is held nowhere reads as the zero value.
  The value is an \<open>interface{}\<close>; the provider unwraps it with the type assertions
  \<open>.(string)\<close> and \<open>.(int)\<close>, which panic on any other dynamic type, \<open>nil\<close>
  included.
\<close>

datatype ValueType = TypeString | TypeInt | TypeMap

datatype val =
    VNil
  | VString string
  | VInt int
  | VMap "(string \<times> string) list"

record Schema =
  Type :: ValueType
  Required :: bool
  Optional :: bool
  ForceNew :: bool
  Default :: val

record ResourceData =
  schema :: "string \<rightharpoonup> Schema"
  attrs :: "string \<rightharpoonup> val"
  resourceId :: string

fun Zero :: "ValueType \<Rightarrow> val" where
  "Zero TypeString = VString []"
| "Zero TypeInt = VInt 0"
| "Zero TypeMap = VMap []"

definition Get :: "ResourceData \<Rightarrow> string \<Rightarrow> val" where
  "Get d key =
     (case schema d key of
        None \<Rightarrow> VNil
      | Some s \<Rightarrow> (case attrs d key of Some v \<Rightarrow> v | None \<Rightarrow> Zero (Type s)))"

text \<open>
  \<open>Set\<close> with a string value, the only kind of value the provider stores. The
  error for an undeclared key has the SDK's text for a key without dots; the
  text of the error for a value of another type is the decoding library's and
  is abridged. The provider discards both.
\<close>

definition Set_string :: "ResourceData \<Rightarrow> string \<Rightarrow> string \<Rightarrow> ResourceData \<times> error option" where
  "Set_string d key v =
     (case schema d key of
        None \<Rightarrow>
          (d, Some (ErrorString
                (''Invalid address to set: []string{'' @ [CHR 0x22] @ key @ [CHR 0x22] @ ''}'')))
      | Some s \<Rightarrow>
          if Type s = TypeString then (d\<lparr>attrs := (attrs d)(key \<mapsto> VString v)\<rparr>, None)
          else (d, Some (ErrorString (key @ '': value is not of the attribute type''))))"

definition Id_of :: "ResourceData \<Rightarrow> string" where
  "Id_of d = resourceId d"

definition SetId :: "ResourceData \<Rightarrow> string \<Rightarrow> ResourceData" where
  "SetId d v = d\<lparr>resourceId := v\<rparr>"

fun as_string :: "val \<Rightarrow> panic + string" where
  "as_string (VString s) = Inr s"
| "as_string v = Inl InterfaceConversion"

fun as_int :: "val \<Rightarrow> panic + int" where
  "as_int (VInt i) = Inr i"
| "as_int v = Inl InterfaceConversion"

section \<open>provider.go\<close>

subsection \<open>Quoting identifiers\<close>

text \<open>
  \<open>identQuoteReplacer\<close> is \<open>strings.NewReplacer("`", "``")\<close>: its \<open>Replace\<close>
  doubles every backtick and copies every other byte.
\<close>

definition backtick :: char where
  "backtick = CHR 0x60"

fun identQuoteReplacer :: "string \<Rightarrow> string" where
  "identQuoteReplacer [] = []"
| "identQuoteReplacer (c # cs) =
     (if c = backtick then backtick # backtick # identQuoteReplacer cs
      else c # identQuoteReplacer cs)"

definition quoteIdentifier :: "string \<Rightarrow> string" where
  "quoteIdentifier inp = [backtick] @ identQuoteReplacer inp @ [backtick]"

subsection \<open>The database handle and the libraries behind it\<close>

text \<open>
  A server version as package \<open>go-version\<close> holds it: its numeric segments.
  \<open>GreaterThan\<close> compares segment by segment, a missing segment counting as zero;
  against a version without pre-release label, as \<open>8.0.0\<close> is, the segments decide.
\<close>

type_synonym version = "nat list"

fun GreaterThan :: "version \<Rightarrow> version \<Rightarrow> bool" where
  "GreaterThan [] [] = False"
| "GreaterThan (x # xs) [] = (\<not> list_all (\<lambda>s. s = 0) (x # xs))"
| "GreaterThan [] (y # ys) = False"
| "GreaterThan (x # xs) (y # ys) = (if x = y then GreaterThan xs ys else y < x)"

text \<open>
  The handle \<open>*sql.DB\<close> stands for the server and the driver: what the provider
  observes of them is the outcome of each call, so the handle is a record of
  these outcomes.
  \<^item> \<open>Exec stmt\<close> is the error of \<open>db.Exec(stmt)\<close>, if any.
  \<^item> \<open>QueryRow_Scan2 stmt\<close> is the outcome of \<open>db.QueryRow(stmt).Scan(&a, &b)\<close>:
    an error, or the two columns of the first row.
  \<^item> \<open>QueryRow_Scan stmt arg n\<close> is the outcome of \<open>db.QueryRow(stmt, arg)\<close>
    scanned into \<open>n\<close> destinations: an error (\<open>sql.ErrNoRows\<close> when the query
    has no row), or the first column of the first row.
  \<^item> \<open>mySQLServerVersion\<close> and \<open>mySQLServerVersionString\<close> are the outcomes of
    the two helpers of these names, which \<open>ReadDb\<close> calls and no source file
    defines; they are taken as given, and what they send to the server is not
    recorded.
  \<^item> \<open>Ping k\<close> is the error of \<open>db.Ping()\<close>, if any, at the \<open>k\<close>-th attempt to
    connect.
  \<^item> \<open>ConnMaxLifetime\<close> and \<open>MaxOpenConns_db\<close> are the settings of the pool.
\<close>

record DB =
  Exec :: "string \<Rightarrow> error option"
  QueryRow_Scan2 :: "string \<Rightarrow> error + string \<times> string"
  QueryRow_Scan :: "string \<Rightarrow> string \<Rightarrow> nat \<Rightarrow> error + string"
  mySQLServerVersion :: "error + version"
  mySQLServerVersionString :: "error + string"
  Ping :: "nat \<Rightarrow> error option"
  ConnMaxLifetime :: "64 word"
  MaxOpenConns_db :: int

record Config =
  User :: string
  Passwd :: string
  Net :: string
  Addr :: string
  TLSConfig :: string
  AllowNativePasswords :: bool
  AllowCleartextPasswords :: bool

record MySQLConfiguration =
  Config :: Config
  Db :: "DB option"
  MaxConnLifetime :: "64 word"
  MaxOpenConns :: int
  ConnectRetryTimeoutSec :: "64 word"

datatype URL = URL string
datatype Dialer = Dialer string

record RetryError =
  Err :: error
  Retryable :: bool

definition RetryableError :: "error \<Rightarrow> RetryError" where
  "RetryableError err = \<lparr>Err = err, Retryable = True\<rparr>"

text \<open>
  The variables \<open>db\<close> and \<open>err\<close> of \<open>mySQLConnect\<close>, which its retried closure
  assigns, and the number of attempts made so far.
\<close>

type_synonym connVars = "DB option \<times> error option \<times> nat"

text \<open>
  The library functions that \<open>providerConfigure\<close> reaches. \<open>Retry\<close> is
  \<open>resource.Retry\<close> of the SDK: it is given the timeout, the closure (a
  transformer of the captured variables) and the variables, and returns its
  error and the variables as the closure left them.
\<close>

record Env =
  proxy_FromEnvironment :: Dialer
  proxy_Direct :: Dialer
  url_Parse :: "string \<Rightarrow> error + URL"
  proxy_FromURL :: "URL \<Rightarrow> Dialer \<Rightarrow> error + Dialer"
  FormatDSN :: "Config \<Rightarrow> string"
  sql_Open :: "(string \<rightharpoonup> Dialer) \<Rightarrow> string \<Rightarrow> string \<Rightarrow> nat \<Rightarrow> error + DB"
  Retry :: "64 word \<Rightarrow> (connVars \<Rightarrow> RetryError option \<times> connVars) \<Rightarrow> connVars
             \<Rightarrow> error option \<times> connVars"

subsection \<open>The provider's schema\<close>

definition cleartextPasswords :: string where
  "cleartextPasswords = ''cleartext''"

definition nativePasswords :: string where
  "nativePasswords = ''native''"

definition Provider_Schema :: "(string \<times> Schema) list" where
  "Provider_Schema =
     [(''endpoint'', \<lparr>Type = TypeString, Required = True, Optional = False, ForceNew = False, Default = VNil\<rparr>),
      (''username'', \<lparr>Type = TypeString, Required = True, Optional = False, ForceNew = False, Default = VNil\<rparr>),
      (''password'', \<lparr>Type = TypeString, Required = True, Optional = False, ForceNew = False, Default = VNil\<rparr>),
      (''proxy'', \<lparr>Type = TypeString, Required = False, Optional = True, ForceNew = False, Default = VNil\<rparr>),
      (''tls'', \<lparr>Type = TypeString, Required = False, Optional = True, ForceNew = False, Default = VNil\<rparr>),
      (''max_conn_lifetime_sec'', \<lparr>Type = TypeInt, Required = False, Optional = True, ForceNew = False, Default = VNil\<rparr>),
      (''max_open_conns'', \<lparr>Type = TypeInt, Required = False, Optional = True, ForceNew = False, Default = VNil\<rparr>),
      (''conn_params'', \<lparr>Type = TypeMap, Required = False, Optional = True, ForceNew = False, Default = VNil\<rparr>),
      (''authentication_plugin'', \<lparr>Type = TypeString, Required = False, Optional = True, ForceNew = False,
          Default = VString nativePasswords\<rparr>),
      (''connect_retry_timeout_sec'', \<lparr>Type = TypeInt, Required = False, Optional = True, ForceNew = False,
          Default = VInt 300\<rparr>)]"

text \<open>
  The \<open>ValidateFunc\<close> of \<open>endpoint\<close>: the two-value assertion \<open>_, ok := v.(string)\<close>
  does not panic; the function returns its warnings and its errors.
\<close>

definition endpoint_ValidateFunc :: "val \<Rightarrow> string \<Rightarrow> string list \<times> error list" where
  "endpoint_ValidateFunc v k =
     (let ok = (case v of VString s \<Rightarrow> True | _ \<Rightarrow> False) in
      if \<not> ok then ([], [ErrorString ''Mysql endpoint url must not be an empty string''])
      else ([], []))"

subsection \<open>Connecting\<close>

definition proxyDialer :: "Env \<Rightarrow> ResourceData \<Rightarrow> panic + (error + Dialer)" where
  "proxyDialer env d =
     (let proxyFromEnv = proxy_FromEnvironment env in
      bindP (as_string (Get d ''proxy'')) (\<lambda>proxyArg.
        if length proxyArg > 0 then
          (case url_Parse env proxyArg of
             Inl err \<Rightarrow> Inr (Inl err)
           | Inr proxyurl \<Rightarrow>
               (case proxy_FromURL env proxyurl (proxy_Direct env) of
                  Inl err \<Rightarrow> Inr (Inl err)
                | Inr proxy \<Rightarrow> Inr (Inr proxy)))
        else Inr (Inr proxyFromEnv)))"

text \<open>
  The two setters of the pool, which replace a negative argument by zero.
\<close>

definition SetConnMaxLifetime :: "DB \<Rightarrow> 64 word \<Rightarrow> DB" where
  "SetConnMaxLifetime h lifetime = h\<lparr>ConnMaxLifetime := (if sint lifetime < 0 then 0 else lifetime)\<rparr>"

definition SetMaxOpenConns :: "DB \<Rightarrow> int \<Rightarrow> DB" where
  "SetMaxOpenConns h n = h\<lparr>MaxOpenConns_db := (if n < 0 then 0 else n)\<rparr>"

text \<open>The closure that \<open>mySQLConnect\<close> hands to \<open>resource.Retry\<close>.\<close>

definition connect_attempt ::
  "Env \<Rightarrow> (string \<rightharpoonup> Dialer) \<Rightarrow> string \<Rightarrow> connVars \<Rightarrow> RetryError option \<times> connVars" where
  "connect_attempt env dials dsn vars =
     (case vars of (db, err, k) \<Rightarrow>
        (case sql_Open env dials ''mysql'' dsn k of
           Inl e \<Rightarrow> (Some (RetryableError e), (None, Some e, Suc k))
         | Inr h \<Rightarrow>
             (case Ping h k of
                Some e \<Rightarrow> (Some (RetryableError e), (Some h, Some e, Suc k))
              | None \<Rightarrow> (None, (Some h, None, Suc k)))))"

definition mySQLConnect ::
  "Env \<Rightarrow> (string \<rightharpoonup> Dialer) \<Rightarrow> MySQLConfiguration \<Rightarrow> panic + (error + DB)" where
  "mySQLConnect env dials conf =
     (let dsn = FormatDSN env (Config conf) in
      case Retry env (ConnectRetryTimeoutSec conf) (connect_attempt env dials dsn) (None, None, 0) of
        (retryError, (db, err, k)) \<Rightarrow>
          (case retryError of
             Some e \<Rightarrow> Inr (Inl (ErrorString (''Could not connect to server: '' @ Error e)))
           | None \<Rightarrow>
               (case db of
                  None \<Rightarrow> Inl NilPointerDereference
                | Some h \<Rightarrow>
                    Inr (Inr (SetMaxOpenConns (SetConnMaxLifetime h (MaxConnLifetime conf))
                                (MaxOpenConns conf))))))"

text \<open>
  \<open>time.Duration(n) * time.Second\<close>: a product of 64-bit integers, which wraps.
\<close>

definition seconds :: "int \<Rightarrow> 64 word" where
  "seconds n = word_of_int n * 1000000000"

text \<open>
  \<open>providerConfigure\<close> returns the configuration or an error, and registers the
  dialer for \<open>tcp\<close> with the driver: the registry is passed in and returned.
\<close>

definition providerConfigure ::
  "Env \<Rightarrow> (string \<rightharpoonup> Dialer) \<Rightarrow> ResourceData
     \<Rightarrow> panic + ((string \<rightharpoonup> Dialer) \<times> (error + MySQLConfiguration))" where
  "providerConfigure env dials d =
     bindP (as_string (Get d ''endpoint'')) (\<lambda>endpoint.
       if \<not> 0 < length endpoint then Inl IndexOutOfRange
       else
         (let proto = (if endpoint ! 0 = CHR ''/'' then ''unix'' else ''tcp'') in
          bindP (as_string (Get d ''username'')) (\<lambda>username.
          bindP (as_string (Get d ''password'')) (\<lambda>password.
          bindP (as_string (Get d ''tls'')) (\<lambda>tls.
          bindP (as_string (Get d ''authentication_plugin'')) (\<lambda>plugin1.
          bindP (as_string (Get d ''authentication_plugin'')) (\<lambda>plugin2.
            (let sqlconf = \<lparr>User = username, Passwd = password, Net = proto, Addr = endpoint,
                            TLSConfig = tls,
                            AllowNativePasswords = (plugin1 = nativePasswords),
                            AllowCleartextPasswords = (plugin2 = cleartextPasswords)\<rparr> in
             bindP (proxyDialer env d) (\<lambda>r.
               case r of
                 Inl err \<Rightarrow> Inr (dials, Inl err)
               | Inr dialer \<Rightarrow>
                   (let dials' = dials(''tcp'' \<mapsto> dialer) in
                    bindP (as_int (Get d ''max_conn_lifetime_sec'')) (\<lambda>lifetime.
                    bindP (as_int (Get d ''max_open_conns'')) (\<lambda>conns.
                    bindP (as_int (Get d ''connect_retry_timeout_sec'')) (\<lambda>timeout.
                      (let mysqlConf = \<lparr>Config = sqlconf, Db = None,
                                        MaxConnLifetime = seconds lifetime,
                                        MaxOpenConns = conns,
                                        ConnectRetryTimeoutSec = seconds timeout\<rparr> in
                       bindP (mySQLConnect env dials' mysqlConf) (\<lambda>c.
                         case c of
                           Inl err \<Rightarrow> Inr (dials', Inl err)
                         | Inr db \<Rightarrow> Inr (dials', Inr (mysqlConf\<lparr>Db := Some db\<rparr>)))))))))))))))))"

section \<open>resource\_db.go: parsing the output of SHOW CREATE DATABASE\<close>

definition defCharSetKey :: string where
  "defCharSetKey = ''CHARACTER SET ''"

definition defaultCollateKey :: string where
  "defaultCollateKey = ''COLLATE ''"

definition extractIdentAfter :: "string \<Rightarrow> string \<Rightarrow> panic + string" where
  "extractIdentAfter sql keyword =
     (let charsetIndex = Index sql keyword in
      if charsetIndex \<noteq> -1 then
        (let charsetIndex = charsetIndex + int (length keyword) in
         bindP (slice_from sql charsetIndex) (\<lambda>remain.
           (let spaceIndex = IndexRune remain (CHR '' '') in
            slice_to remain spaceIndex)))
      else Inr '''')"

section \<open>resource\_db.go: the database resource\<close>

definition unknownDatabaseErr :: "16 word" where
  "unknownDatabaseErr = 1049"

text \<open>
  The schema that \<open>ResourceDB\<close> declares. It registers \<open>CreateDb\<close> as the
  create operation and \<open>UpdateDb\<close> as the update operation, and no read
  operation.
\<close>

definition ResourceDB_Schema :: "(string \<times> Schema) list" where
  "ResourceDB_Schema =
     [(''name'', \<lparr>Type = TypeString, Required = True, Optional = False, ForceNew = True, Default = VNil\<rparr>),
      (''default_charset'', \<lparr>Type = TypeString, Required = False, Optional = True, ForceNew = False,
          Default = VString ''utf8''\<rparr>),
      (''default_collation'', \<lparr>Type = TypeString, Required = False, Optional = True, ForceNew = False,
          Default = VString ''utf8_general_ci''\<rparr>)]"

definition databaseSQLCMD :: "string \<Rightarrow> ResourceData \<Rightarrow> panic + string" where
  "databaseSQLCMD verb d =
     bindP (as_string (Get d ''name'')) (\<lambda>name.
     bindP (as_string (Get d ''default_character_set'')) (\<lambda>defaultCharset.
     bindP (as_string (Get d ''default_collation'')) (\<lambda>defaultCollation.
       (let defaultCharsetClause =
              (if defaultCharset \<noteq> [] then defCharSetKey @ quoteIdentifier defaultCharset else []);
            defaultCollationClause =
              (if defaultCollation \<noteq> [] then defaultCollateKey @ quoteIdentifier defaultCollation
               else [])
        in Inr (verb @ '' DATABASE '' @ quoteIdentifier name @ '' '' @ defaultCharsetClause
                  @ '' '' @ defaultCollationClause)))))"

definition requiredVersion :: version where
  "requiredVersion = [8, 0, 0]"

definition showCollationSQL :: string where
  "showCollationSQL =
     ''SHOW COLLATION WHERE `Charset` = ? AND `Default` = '' @ [CHR 0x27] @ ''Yes'' @ [CHR 0x27]"

text \<open>
  The operations take the resource data, the configuration \<open>meta\<close> and the list
  of the statements sent to the server so far; they return the resource data as
  they leave it, the statements sent, and the error (\<open>None\<close> for \<open>nil\<close>).
  The three \<open>d.Set\<close> calls that end \<open>ReadDb\<close> discard the error of \<open>Set\<close>.
\<close>

definition ReadDb_store :: "ResourceData \<Rightarrow> string \<Rightarrow> string \<Rightarrow> string \<Rightarrow> ResourceData" where
  "ReadDb_store d name defaultCharset defaultCollation =
     (let d1 = fst (Set_string d ''name'' name);
          d2 = fst (Set_string d1 ''default_character_set'' defaultCharset);
          d3 = fst (Set_string d2 ''default_collation'' defaultCollation)
      in d3)"

definition ReadDb ::
  "ResourceData \<Rightarrow> MySQLConfiguration \<Rightarrow> string list
     \<Rightarrow> panic + (ResourceData \<times> string list \<times> error option)" where
  "ReadDb d meta sent =
     (let db = Db meta;
          name = Id_of d;
          stmtSQL = ''SHOW CREATE DATABASE '' @ quoteIdentifier name
      in case db of
           None \<Rightarrow> Inl NilPointerDereference
         | Some h \<Rightarrow>
            (let sent1 = sent @ [stmtSQL] in
             case QueryRow_Scan2 h stmtSQL of
               Inl err \<Rightarrow>
                 (case err of
                    MySQLError number message \<Rightarrow>
                      if number = unknownDatabaseErr then Inr (SetId d [], sent1, None)
                      else Inr (d, sent1,
                             Some (ErrorString (''Error during show create database: '' @ Error err)))
                  | _ \<Rightarrow> Inr (d, sent1,
                             Some (ErrorString (''Error during show create database: '' @ Error err))))
             | Inr (database, createSQL) \<Rightarrow>
                 bindP (extractIdentAfter createSQL defCharSetKey) (\<lambda>defaultCharset.
                 bindP (extractIdentAfter createSQL defaultCollateKey) (\<lambda>defaultCollation.
                   if defaultCollation = [] \<and> defaultCharset \<noteq> [] then
                     (case mySQLServerVersion h of
                        Inl err \<Rightarrow> Inr (d, sent1, Some err)
                      | Inr currentVersion \<Rightarrow>
                         (case mySQLServerVersionString h of
                            Inl err \<Rightarrow> Inr (d, sent1, Some err)
                          | Inr serverVersionString \<Rightarrow>
                             (let sent2 = sent1 @ [showCollationSQL];
                                  res = (if \<not> Contains serverVersionString ''MariaDB''
                                            \<and> GreaterThan currentVersion requiredVersion
                                         then QueryRow_Scan h showCollationSQL defaultCharset 7
                                         else QueryRow_Scan h showCollationSQL defaultCharset 6)
                              in case res of
                                   Inl e \<Rightarrow>
                                     if e = ErrNoRows then
                                       Inr (d, sent2, Some (ErrorString
                                         (''Charset '' @ defaultCharset @ '' has no default collation'')))
                                     else
                                       Inr (d, sent2, Some (ErrorString
                                         (''Error getting default charset: '' @ Error e @ '', ''
                                            @ defaultCharset)))
                                 | Inr collation \<Rightarrow>
                                     Inr (ReadDb_store d name defaultCharset collation, sent2, None))))
                   else Inr (ReadDb_store d name defaultCharset defaultCollation, sent1, None)))))"

definition CreateDb ::
  "ResourceData \<Rightarrow> MySQLConfiguration \<Rightarrow> string list
     \<Rightarrow> panic + (ResourceData \<times> string list \<times> error option)" where
  "CreateDb d meta sent =
     (let db = Db meta in
      bindP (databaseSQLCMD ''CREATE'' d) (\<lambda>sqlStatment.
        case db of
          None \<Rightarrow> Inl NilPointerDereference
        | Some h \<Rightarrow>
           (let sent1 = sent @ [sqlStatment] in
            case Exec h sqlStatment of
              Some err \<Rightarrow> Inr (d, sent1, Some err)
            | None \<Rightarrow>
                bindP (as_string (Get d ''name'')) (\<lambda>name.
                  ReadDb (SetId d name) meta sent1))))"

text \<open>
  Modelled from the spec: \<open>UpdateDb\<close>, which \<open>ResourceDB\<close> registers and no
  source file defines. The spec gives it the statement-building logic of
  Create, the builder \<open>databaseSQLCMD\<close> being reused with another verb; the
  statement it builds is all that is modelled of it.
\<close>

definition UpdateDb_statement :: "ResourceData \<Rightarrow> panic + string" where
  "UpdateDb_statement d = databaseSQLCMD ''ALTER'' d"

text \<open>The statement of \<open>CreateDb\<close>, as its second line builds it.\<close>

definition CreateDb_statement :: "ResourceData \<Rightarrow> panic + string" where
  "CreateDb_statement d = databaseSQLCMD ''CREATE'' d"

text \<open>Replacing a leading verb of a statement by another one.\<close>

definition replace_verb :: "string \<Rightarrow> string \<Rightarrow> string \<Rightarrow> string" where
  "replace_verb old new stmt = new @ drop (length old) stmt"

section \<open>Concrete inputs\<close>

text \<open>The clause of the creation statement that the round-trip property names.\<close>

definition utf8mb4_clause :: string where
  "utf8mb4_clause = ''CHARACTER SET utf8mb4 COLLATE utf8mb4_unicode_ci''"

text \<open>
  What a MySQL 8 server answers to SHOW CREATE DATABASE for a database \<open>db\<close>
  created with that clause, and the same for a database whose name holds the
  keyword \<open>COLLATE\<close>.
\<close>

definition example_createSQL :: string where
  "example_createSQL =
     ''CREATE DATABASE `db` /*!40100 DEFAULT CHARACTER SET utf8mb4 COLLATE utf8mb4_unicode_ci */''"

definition keyword_name_createSQL :: string where
  "keyword_name_createSQL =
     ''CREATE DATABASE `COLLATE x` /*!40100 DEFAULT CHARACTER SET utf8mb4 COLLATE utf8mb4_unicode_ci */''"

definition latin1_createSQL :: string where
  "latin1_createSQL = ''CREATE DATABASE `db` /*!40100 DEFAULT CHARACTER SET latin1 */''"

text \<open>
  A server that holds the database \<open>db\<close>, one that fails every query with the
  MySQL error of the given number, and one that holds a database whose charset
  has no default collation.
\<close>

definition example_db :: DB where
  "example_db =
     \<lparr>Exec = (\<lambda>stmt. None),
      QueryRow_Scan2 = (\<lambda>stmt. Inr (''db'', example_createSQL)),
      QueryRow_Scan = (\<lambda>stmt arg n. Inl ErrNoRows),
      mySQLServerVersion = Inr [8, 0, 21],
      mySQLServerVersionString = Inr ''8.0.21'',
      Ping = (\<lambda>k. None),
      ConnMaxLifetime = 0,
      MaxOpenConns_db = 0\<rparr>"

definition failing_db :: "16 word \<Rightarrow> DB" where
  "failing_db number =
     example_db\<lparr>Exec := (\<lambda>stmt. Some (MySQLError number ''refused'')),
                QueryRow_Scan2 := (\<lambda>stmt. Inl (MySQLError number ''refused''))\<rparr>"

definition latin1_db :: DB where
  "latin1_db = example_db\<lparr>QueryRow_Scan2 := (\<lambda>stmt. Inr (''db'', latin1_createSQL))\<rparr>"

text \<open>
  The same server with a default collation for the charset, found when seven
  columns are scanned, and with a collation lookup that the server refuses.
\<close>

definition latin1_default_db :: DB where
  "latin1_default_db =
     latin1_db\<lparr>QueryRow_Scan := (\<lambda>stmt arg n.
        if n = 7 then Inr ''latin1_swedish_ci''
        else Inl (LibraryError ''sql: expected 7 destination arguments in Scan, not 6''))\<rparr>"

definition lookup_failing_db :: DB where
  "lookup_failing_db =
     latin1_db\<lparr>QueryRow_Scan := (\<lambda>stmt arg n. Inl (MySQLError 1227 ''Access denied''))\<rparr>"

text \<open>The same server when one of the two version helpers fails.\<close>

definition version_failing_db :: DB where
  "version_failing_db =
     latin1_db\<lparr>mySQLServerVersion := Inl (MySQLError 2006 ''MySQL server has gone away'')\<rparr>"

definition version_string_failing_db :: DB where
  "version_string_failing_db =
     latin1_db\<lparr>mySQLServerVersionString := Inl (MySQLError 2006 ''MySQL server has gone away'')\<rparr>"

definition example_config :: Config where
  "example_config =
     \<lparr>User = ''root'', Passwd = ''secret'', Net = ''tcp'', Addr = ''localhost:3306'',
      TLSConfig = ''false'', AllowNativePasswords = True, AllowCleartextPasswords = False\<rparr>"

definition meta_of :: "DB \<Rightarrow> MySQLConfiguration" where
  "meta_of h =
     \<lparr>Config = example_config, Db = Some h, MaxConnLifetime = 0, MaxOpenConns = 0,
      ConnectRetryTimeoutSec = seconds 300\<rparr>"

text \<open>
  Resource data of a \<open>mysql_database\<close>: with the configuration of the round
  trip, with a backtick in the name, and with the ID alone (nothing read yet).
\<close>

definition utf8mb4_resource :: ResourceData where
  "utf8mb4_resource =
     \<lparr>schema = map_of ResourceDB_Schema,
      attrs = [''name'' \<mapsto> VString ''db'', ''default_charset'' \<mapsto> VString ''utf8mb4'',
               ''default_collation'' \<mapsto> VString ''utf8mb4_unicode_ci''],
      resourceId = []\<rparr>"

definition backtick_resource :: ResourceData where
  "backtick_resource =
     \<lparr>schema = map_of ResourceDB_Schema,
      attrs = [''name'' \<mapsto> VString ''my`db'', ''default_charset'' \<mapsto> VString ''utf8'',
               ''default_collation'' \<mapsto> VString ''utf8_general_ci''],
      resourceId = []\<rparr>"

definition fresh_resource :: ResourceData where
  "fresh_resource = \<lparr>schema = map_of ResourceDB_Schema, attrs = Map.empty, resourceId = ''db''\<rparr>"

text \<open>
  Provider data with the empty endpoint, and libraries in which every call
  succeeds and \<open>Retry\<close> runs the closure once.
\<close>

definition empty_endpoint_data :: ResourceData where
  "empty_endpoint_data =
     \<lparr>schema = map_of Provider_Schema,
      attrs = [''endpoint'' \<mapsto> VString [], ''username'' \<mapsto> VString ''root'',
               ''password'' \<mapsto> VString ''secret''],
      resourceId = []\<rparr>"

definition example_env :: Env where
  "example_env =
     \<lparr>proxy_FromEnvironment = Dialer ''direct'',
      proxy_Direct = Dialer ''direct'',
      url_Parse = (\<lambda>s. Inr (URL s)),
      proxy_FromURL = (\<lambda>u forward. case u of URL s \<Rightarrow> Inr (Dialer s)),
      FormatDSN = (\<lambda>c. User c @ '':'' @ Passwd c @ ''@'' @ Net c @ ''('' @ Addr c @ '')/''),
      sql_Open = (\<lambda>dials driver dsn k. Inr example_db),
      Retry = (\<lambda>timeout f vars.
                 case f vars of (None, vars') \<Rightarrow> (None, vars')
                              | (Some e, vars') \<Rightarrow> (Some (Err e), vars'))\<rparr>"

section \<open>Facts about the string functions\<close>

lemma Index_range:
  "Index s k = -1 \<or> (0 \<le> Index s k \<and> Index s k + int (length k) \<le> int (length s))"
proof (induction s)
  case Nil
  then show ?case by simp
next
  case (Cons c cs)
  show ?case
  proof (cases "prefix k (c # cs)")
    case True
    then have "length k \<le> length (c # cs)" by (rule prefix_length_le)
    with True show ?thesis by simp
  next
    case False
    with Cons show ?thesis by (auto simp: Let_def)
  qed
qed

lemma IndexRune_takeWhile:
  "IndexRune s c = (if c \<in> set s then int (length (takeWhile (\<lambda>x. x \<noteq> c) s)) else -1)"
  by (induction s) (auto simp: Let_def)

lemma take_length_takeWhile:
  "take (length (takeWhile P s)) s = takeWhile P s"
  by (induction s) auto

lemma extractIdentAfter_unfold:
  "extractIdentAfter sql keyword =
     (if Index sql keyword = -1 then Inr []
      else if CHR '' '' \<in> set (drop (nat (Index sql keyword) + length keyword) sql)
           then Inr (takeWhile (\<lambda>c. c \<noteq> CHR '' '')
                       (drop (nat (Index sql keyword) + length keyword) sql))
           else Inl SliceBoundsOutOfRange)"
proof (cases "Index sql keyword = -1")
  case True
  then show ?thesis by (simp add: extractIdentAfter_def)
next
  case False
  with Index_range [of sql keyword]
  have r: "0 \<le> Index sql keyword" "Index sql keyword + int (length keyword) \<le> int (length sql)"
    by auto
  define remain where "remain = drop (nat (Index sql keyword) + length keyword) sql"
  have n: "nat (Index sql keyword + int (length keyword)) = nat (Index sql keyword) + length keyword"
    using r by (simp add: nat_add_distrib)
  have s: "slice_from sql (Index sql keyword + int (length keyword)) = Inr remain"
    using r by (simp add: slice_from_def remain_def n)
  have t: "slice_to remain (IndexRune remain (CHR '' '')) =
      (if CHR '' '' \<in> set remain then Inr (takeWhile (\<lambda>c. c \<noteq> CHR '' '') remain)
       else Inl SliceBoundsOutOfRange)"
    by (simp add: slice_to_def IndexRune_takeWhile take_length_takeWhile length_takeWhile_le)
  show ?thesis
    using False s t by (simp add: extractIdentAfter_def Let_def bindP_def remain_def)
qed

lemma Index_Cons_none:
  "Index (c # cs) k = -1 \<Longrightarrow> \<not> prefix k (c # cs) \<and> Index cs k = -1"
  using Index_range [of cs k] by (auto simp: Let_def split: if_splits)

lemma no_straddle:
  assumes np: "\<not> prefix k p" and ne: "p \<noteq> []"
    and ns: "list_all (\<lambda>j. \<not> prefix (drop j k) t) [1..<length k]"
  shows "\<not> prefix k (p @ t)"
proof
  assume "prefix k (p @ t)"
  with np obtain us where us: "k = p @ us" "prefix us t"
    by (auto simp: prefix_append)
  have d: "drop (length p) k = us" using us by simp
  show False
  proof (cases "us = []")
    case True
    with us np show False by simp
  next
    case False
    with us ne have "1 \<le> length p" "length p < length k"
      by (auto simp: Suc_le_eq)
    with ns have "\<not> prefix (drop (length p) k) t"
      by (simp add: list_all_iff)
    with d us show False by simp
  qed
qed

lemma Index_append:
  assumes "Index pre k = -1"
    and "list_all (\<lambda>j. \<not> prefix (drop j k) t) [1..<length k]"
  shows "Index (pre @ t) k = (if Index t k < 0 then -1 else int (length pre) + Index t k)"
  using assms
proof (induction pre)
  case Nil
  then show ?case using Index_range [of t k] by auto
next
  case (Cons c cs)
  from Cons.prems(1) have a: "\<not> prefix k (c # cs)" "Index cs k = -1"
    using Index_Cons_none by blast+
  have "\<not> prefix k ((c # cs) @ t)"
    using a(1) Cons.prems(2) by (intro no_straddle) simp_all
  then show ?case
    using Cons.IH [OF a(2) Cons.prems(2)] Index_range [of t k] by (auto simp: Let_def)
qed

section \<open>Extraction of the charset and the collation\<close>

lemma clause_no_straddle_charset:
  "list_all (\<lambda>j. \<not> prefix (drop j defCharSetKey) (utf8mb4_clause @ CHR '' '' # post))
     [1..<length defCharSetKey]"
  by (simp add: defCharSetKey_def utf8mb4_clause_def upt_rec)

lemma clause_no_straddle_collate:
  "list_all (\<lambda>j. \<not> prefix (drop j defaultCollateKey) (utf8mb4_clause @ CHR '' '' # post))
     [1..<length defaultCollateKey]"
  by (simp add: defaultCollateKey_def utf8mb4_clause_def upt_rec)

lemma clause_Index_charset: "Index (utf8mb4_clause @ CHR '' '' # post) defCharSetKey = 0"
  by (simp add: defCharSetKey_def utf8mb4_clause_def)

lemma clause_Index_collate: "Index (utf8mb4_clause @ CHR '' '' # post) defaultCollateKey = 22"
  by (simp add: defaultCollateKey_def utf8mb4_clause_def)

text \<open>
  C3, as stated, fails. The answer for a database named \<open>COLLATE x\<close> contains the
  clause, and the collation extracted is \<open>x`\<close>, since the first \<open>COLLATE\<close> is
  the one in the name; and on the clause alone, with nothing after it, the
  extraction of the collation panics.
\<close>
theorem extractIdentAfter_clause_counterexample:
  "Index keyword_name_createSQL utf8mb4_clause \<noteq> -1
   \<and> extractIdentAfter keyword_name_createSQL defaultCollateKey = Inr ''x`''
   \<and> Index utf8mb4_clause utf8mb4_clause \<noteq> -1
   \<and> extractIdentAfter utf8mb4_clause defaultCollateKey = Inl SliceBoundsOutOfRange"
  by (simp add: extractIdentAfter_unfold keyword_name_createSQL_def utf8mb4_clause_def
      defaultCollateKey_def)

text \<open>
  C3, amended: when the clause \<open>CHARACTER SET utf8mb4 COLLATE utf8mb4_unicode_ci\<close>
  is followed by a space and neither keyword occurs in the text before it,
  \<open>extractIdentAfter\<close> yields \<open>utf8mb4\<close> for \<open>CHARACTER SET\<close> and
  \<open>utf8mb4_unicode_ci\<close> for \<open>COLLATE\<close>.
\<close>
theorem extractIdentAfter_clause:
  assumes "Index pre defCharSetKey = -1" and "Index pre defaultCollateKey = -1"
  shows "extractIdentAfter (pre @ utf8mb4_clause @ CHR '' '' # post) defCharSetKey = Inr ''utf8mb4''
       \<and> extractIdentAfter (pre @ utf8mb4_clause @ CHR '' '' # post) defaultCollateKey
           = Inr ''utf8mb4_unicode_ci''"
proof -
  let ?t = "utf8mb4_clause @ CHR '' '' # post"
  have a: "Index (pre @ ?t) defCharSetKey = int (length pre)"
    using Index_append [OF assms(1) clause_no_straddle_charset, of post]
    by (simp add: clause_Index_charset)
  have b: "Index (pre @ ?t) defaultCollateKey = int (length pre) + 22"
    using Index_append [OF assms(2) clause_no_straddle_collate, of post]
    by (simp add: clause_Index_collate)
  have c: "extractIdentAfter (pre @ ?t) defCharSetKey = Inr ''utf8mb4''"
    unfolding extractIdentAfter_unfold a
    by (simp add: defCharSetKey_def utf8mb4_clause_def)
  have d: "extractIdentAfter (pre @ ?t) defaultCollateKey = Inr ''utf8mb4_unicode_ci''"
    unfolding extractIdentAfter_unfold b
    by (simp add: defaultCollateKey_def utf8mb4_clause_def nat_add_distrib)
  from c d show ?thesis by simp
qed

text \<open>The answer of a MySQL server for the database \<open>db\<close> is such a string.\<close>
theorem extractIdentAfter_clause_witness:
  "Index ''CREATE DATABASE `db` /*!40100 DEFAULT '' defCharSetKey = -1
   \<and> Index ''CREATE DATABASE `db` /*!40100 DEFAULT '' defaultCollateKey = -1
   \<and> extractIdentAfter example_createSQL defCharSetKey = Inr ''utf8mb4''
   \<and> extractIdentAfter example_createSQL defaultCollateKey = Inr ''utf8mb4_unicode_ci''"
proof -
  have p1: "Index ''CREATE DATABASE `db` /*!40100 DEFAULT '' defCharSetKey = -1"
    by (simp add: defCharSetKey_def)
  have p2: "Index ''CREATE DATABASE `db` /*!40100 DEFAULT '' defaultCollateKey = -1"
    by (simp add: defaultCollateKey_def)
  have e: "example_createSQL
      = ''CREATE DATABASE `db` /*!40100 DEFAULT '' @ utf8mb4_clause @ CHR '' '' # ''*/''"
    by (simp add: example_createSQL_def utf8mb4_clause_def)
  show ?thesis
    using extractIdentAfter_clause [OF p1 p2, of "''*/''"] p1 p2 unfolding e by simp
qed

text \<open>
  C4, as stated, fails. In \<open>COLLATE  COLLATE x\<close> the keyword occurs, first at
  index 0, and the result is the empty string, the next byte being a space; and
  its second occurrence, at index 9, has no space after it, yet the function
  returns.
\<close>
theorem extractIdentAfter_total_counterexample:
  "Index ''COLLATE  COLLATE x'' defaultCollateKey = 0
   \<and> extractIdentAfter ''COLLATE  COLLATE x'' defaultCollateKey = Inr []
   \<and> prefix defaultCollateKey (drop 9 ''COLLATE  COLLATE x'')
   \<and> CHR '' '' \<notin> set (drop (9 + length defaultCollateKey) ''COLLATE  COLLATE x'')"
  by (simp add: extractIdentAfter_unfold defaultCollateKey_def)

text \<open>
  C4, amended: \<open>extractIdentAfter\<close> returns the empty string when the keyword is
  absent; when it occurs, the first occurrence decides: with no space after
  the end of that occurrence the slice bound is \<open>-1\<close> and the function panics,
  and otherwise it returns the bytes up to the next space. So it returns a
  value exactly when the keyword is absent or a space follows its first
  occurrence somewhere, and the empty string exactly when the keyword is
  absent or a space follows its first occurrence at once.
\<close>
theorem extractIdentAfter_cases:
  fixes sql keyword :: string
  defines "remain \<equiv> drop (nat (Index sql keyword) + length keyword) sql"
  shows "extractIdentAfter sql keyword =
          (if Index sql keyword = -1 then Inr []
           else if CHR '' '' \<in> set remain then Inr (takeWhile (\<lambda>c. c \<noteq> CHR '' '') remain)
           else Inl SliceBoundsOutOfRange)
       \<and> ((\<exists>ident. extractIdentAfter sql keyword = Inr ident)
            = (Index sql keyword = -1 \<or> CHR '' '' \<in> set remain))
       \<and> ((extractIdentAfter sql keyword = Inr [])
            = (Index sql keyword = -1 \<or> take 1 remain = '' ''))"
proof -
  have u: "extractIdentAfter sql keyword =
          (if Index sql keyword = -1 then Inr []
           else if CHR '' '' \<in> set remain then Inr (takeWhile (\<lambda>c. c \<noteq> CHR '' '') remain)
           else Inl SliceBoundsOutOfRange)"
    unfolding remain_def by (rule extractIdentAfter_unfold)
  have e: "(CHR '' '' \<in> set remain \<and> takeWhile (\<lambda>c. c \<noteq> CHR '' '') remain = [])
      = (take 1 remain = '' '')"
    by (cases remain) auto
  have a: "(\<exists>ident. extractIdentAfter sql keyword = Inr ident)
            = (Index sql keyword = -1 \<or> CHR '' '' \<in> set remain)"
    unfolding u by simp
  have b: "(extractIdentAfter sql keyword = Inr [])
            = (Index sql keyword = -1 \<or> take 1 remain = '' '')"
    unfolding u using e by auto
  from u a b show ?thesis by simp
qed

text \<open>
  The three cases on concrete strings: the keyword absent, the keyword with no
  space after it, and the keyword with a space at once after it.
\<close>

theorem extractIdentAfter_cases_witness:
  "extractIdentAfter ''CREATE DATABASE `db`'' defaultCollateKey = Inr []
   \<and> extractIdentAfter ''COLLATE utf8mb4_bin'' defaultCollateKey = Inl SliceBoundsOutOfRange
   \<and> extractIdentAfter ''COLLATE  utf8mb4_bin'' defaultCollateKey = Inr []"
  using extractIdentAfter_cases [of "''CREATE DATABASE `db`''" defaultCollateKey]
    extractIdentAfter_cases [of "''COLLATE utf8mb4_bin''" defaultCollateKey]
    extractIdentAfter_cases [of "''COLLATE  utf8mb4_bin''" defaultCollateKey]
  by (simp add: defaultCollateKey_def)

section \<open>Resource data\<close>

lemma as_string_panic: "as_string v = Inl p \<Longrightarrow> p = InterfaceConversion"
  by (cases v) simp_all

lemma Get_undeclared: "schema d key = None \<Longrightarrow> Get d key = VNil"
  by (simp add: Get_def)

lemma ResourceDB_keys:
  "map_of ResourceDB_Schema ''default_character_set'' = None"
  "map_of ResourceDB_Schema ''default_charset'' \<noteq> None"
  by (simp_all add: ResourceDB_Schema_def)

lemma databaseSQLCMD_ResourceDB:
  "schema d = map_of ResourceDB_Schema \<Longrightarrow> databaseSQLCMD verb d = Inl InterfaceConversion"
  by (auto simp: databaseSQLCMD_def bindP_def Get_undeclared ResourceDB_keys
      split: sum.splits dest: as_string_panic)

lemma databaseSQLCMD_statement:
  assumes "Get d ''name'' = VString name"
    and "Get d ''default_character_set'' = VString charset"
    and "Get d ''default_collation'' = VString collation"
  shows "databaseSQLCMD verb d =
    Inr (verb @ '' DATABASE '' @ quoteIdentifier name @ '' ''
         @ (if charset \<noteq> [] then defCharSetKey @ quoteIdentifier charset else [])
         @ '' ''
         @ (if collation \<noteq> [] then defaultCollateKey @ quoteIdentifier collation else []))"
  using assms by (simp add: databaseSQLCMD_def bindP_def Let_def)

lemma databaseSQLCMD_verb:
  "databaseSQLCMD verb d = map_sum id (\<lambda>rest. verb @ rest) (databaseSQLCMD [] d)"
  by (simp add: databaseSQLCMD_def bindP_def Let_def split: sum.splits)

lemma identQuoteReplacer_concat:
  "identQuoteReplacer s = concat (map (\<lambda>c. if c = backtick then [backtick, backtick] else [c]) s)"
  by (induction s) simp_all

section \<open>Building the statement\<close>

text \<open>
  C1 does not hold of the code. The schema declares the charset under the key
  \<open>default_charset\<close>, and the builder reads \<open>default_character_set\<close>: \<open>Get\<close>
  returns \<open>nil\<close> and the assertion \<open>.(string)\<close> panics, so \<open>CreateDb\<close> with
  charset \<open>utf8mb4\<close> and collation \<open>utf8mb4_unicode_ci\<close> panics before any
  statement is sent. \<open>ReadDb\<close> stores the charset under the same undeclared key:
  on resource data that holds the ID alone it returns no error, stores the
  collation, and leaves the declared attribute \<open>default_charset\<close> empty.
\<close>
theorem CreateDb_round_trip_fails:
  "CreateDb utf8mb4_resource (meta_of example_db) [] = Inl InterfaceConversion
   \<and> map_sum id (\<lambda>(d, sent, err). (Get d ''default_charset'', Get d ''default_collation'', err))
        (ReadDb fresh_resource (meta_of example_db) [])
      = Inr (VString [], VString ''utf8mb4_unicode_ci'', None)"
proof -
  have a: "CreateDb utf8mb4_resource (meta_of example_db) [] = Inl InterfaceConversion"
    by (simp add: CreateDb_def bindP_def databaseSQLCMD_ResourceDB utf8mb4_resource_def)
  have e1: "extractIdentAfter example_createSQL defCharSetKey = Inr ''utf8mb4''"
    by (simp add: extractIdentAfter_unfold example_createSQL_def defCharSetKey_def)
  have e2: "extractIdentAfter example_createSQL defaultCollateKey = Inr ''utf8mb4_unicode_ci''"
    by (simp add: extractIdentAfter_unfold example_createSQL_def defaultCollateKey_def)
  have b: "ReadDb fresh_resource (meta_of example_db) []
      = Inr (ReadDb_store fresh_resource ''db'' ''utf8mb4'' ''utf8mb4_unicode_ci'',
             [''SHOW CREATE DATABASE '' @ quoteIdentifier ''db''], None)"
    by (simp add: ReadDb_def meta_of_def example_db_def Let_def bindP_def e1 e2 Id_of_def
        fresh_resource_def)
  have c: "Get (ReadDb_store fresh_resource ''db'' ''utf8mb4'' ''utf8mb4_unicode_ci'') ''default_charset''
      = VString []"
    by (simp add: ReadDb_store_def Set_string_def Get_def fresh_resource_def ResourceDB_Schema_def)
  have d: "Get (ReadDb_store fresh_resource ''db'' ''utf8mb4'' ''utf8mb4_unicode_ci'') ''default_collation''
      = VString ''utf8mb4_unicode_ci''"
    by (simp add: ReadDb_store_def Set_string_def Get_def fresh_resource_def ResourceDB_Schema_def)
  show ?thesis using a b c d by simp
qed

text \<open>
  C2 does not hold of the code: for resource data of the \<open>mysql_database\<close>
  schema, here with the name \<open>my`db\<close>, \<open>databaseSQLCMD\<close> panics on the
  undeclared key and builds no statement.
\<close>
theorem databaseSQLCMD_builds_no_statement:
  "databaseSQLCMD ''CREATE'' backtick_resource = Inl InterfaceConversion"
  by (simp add: databaseSQLCMD_ResourceDB backtick_resource_def)

text \<open>
  C9: the statement of the update operation is the statement of the create
  operation with the leading verb \<open>CREATE\<close> replaced by \<open>ALTER\<close>; where the
  builder panics for one, it panics alike for the other.
\<close>
theorem UpdateDb_statement_verb:
  "UpdateDb_statement d = map_sum id (replace_verb ''CREATE'' ''ALTER'') (CreateDb_statement d)"
  by (simp add: UpdateDb_statement_def CreateDb_statement_def replace_verb_def
      databaseSQLCMD_def bindP_def Let_def split: sum.splits)

section \<open>Configuring the provider\<close>

text \<open>
  C10: the \<open>ValidateFunc\<close> of \<open>endpoint\<close> accepts the empty string, its errors
  being empty exactly for the string values; and \<open>providerConfigure\<close> on data
  whose endpoint is the empty string panics with an index out of range.
\<close>
theorem providerConfigure_empty_endpoint:
  "endpoint_ValidateFunc (VString []) k = ([], [])
   \<and> ((snd (endpoint_ValidateFunc v k) = []) = (\<exists>s. v = VString s))
   \<and> (Get d ''endpoint'' = VString [] \<longrightarrow> providerConfigure env dials d = Inl IndexOutOfRange)"
  by (cases v) (simp_all add: endpoint_ValidateFunc_def providerConfigure_def bindP_def)

text \<open>Provider data with the endpoint set to the empty string.\<close>
theorem providerConfigure_empty_endpoint_witness:
  "Get empty_endpoint_data ''endpoint'' = VString []
   \<and> endpoint_ValidateFunc (VString []) ''endpoint'' = ([], [])
   \<and> providerConfigure example_env Map.empty empty_endpoint_data = Inl IndexOutOfRange"
proof -
  have g: "Get empty_endpoint_data ''endpoint'' = VString []"
    by (simp add: Get_def empty_endpoint_data_def Provider_Schema_def)
  show ?thesis
    using providerConfigure_empty_endpoint
      [of "''endpoint''" VNil empty_endpoint_data example_env Map.empty] g
    by simp
qed

section \<open>Errors of the server\<close>

lemma ReadDb_query_error:
  assumes "Db meta = Some h"
    and "QueryRow_Scan2 h (''SHOW CREATE DATABASE '' @ quoteIdentifier (Id_of d)) = Inl err"
  shows "ReadDb d meta sent =
     (if (\<exists>message. err = MySQLError unknownDatabaseErr message)
      then Inr (SetId d [], sent @ [''SHOW CREATE DATABASE '' @ quoteIdentifier (Id_of d)], None)
      else Inr (d, sent @ [''SHOW CREATE DATABASE '' @ quoteIdentifier (Id_of d)],
                Some (ErrorString (''Error during show create database: '' @ Error err))))"
  using assms by (cases err) (simp_all add: ReadDb_def Let_def)

text \<open>
  C5: when the query of \<open>ReadDb\<close> fails with a MySQL error, then for the number
  1049 \<open>ReadDb\<close> sets the ID to the empty string and returns \<open>nil\<close>, and for
  every other number it leaves the resource data, the ID included, as they
  were and returns an error.
\<close>
theorem ReadDb_unknown_database:
  assumes "Db meta = Some h"
    and "QueryRow_Scan2 h (''SHOW CREATE DATABASE '' @ quoteIdentifier (Id_of d))
           = Inl (MySQLError number message)"
  shows "(number = 1049 \<longrightarrow>
            ReadDb d meta sent
              = Inr (SetId d [], sent @ [''SHOW CREATE DATABASE '' @ quoteIdentifier (Id_of d)], None)
            \<and> Id_of (SetId d []) = [])
       \<and> (number \<noteq> 1049 \<longrightarrow>
            ReadDb d meta sent
              = Inr (d, sent @ [''SHOW CREATE DATABASE '' @ quoteIdentifier (Id_of d)],
                     Some (ErrorString (''Error during show create database: ''
                                          @ Error (MySQLError number message)))))"
  using ReadDb_query_error [OF assms, of sent]
  by (simp add: unknownDatabaseErr_def Id_of_def SetId_def)

text \<open>A server that answers with error 1049, and one that answers with error 1064.\<close>
theorem ReadDb_unknown_database_witness:
  "Db (meta_of (failing_db 1049)) = Some (failing_db 1049)
   \<and> QueryRow_Scan2 (failing_db 1049) (''SHOW CREATE DATABASE '' @ quoteIdentifier (Id_of fresh_resource))
       = Inl (MySQLError 1049 ''refused'')
   \<and> ReadDb fresh_resource (meta_of (failing_db 1049)) []
       = Inr (SetId fresh_resource [], [''SHOW CREATE DATABASE `db`''], None)
   \<and> Db (meta_of (failing_db 1064)) = Some (failing_db 1064)
   \<and> QueryRow_Scan2 (failing_db 1064) (''SHOW CREATE DATABASE '' @ quoteIdentifier (Id_of fresh_resource))
       = Inl (MySQLError 1064 ''refused'')
   \<and> ReadDb fresh_resource (meta_of (failing_db 1064)) []
       = Inr (fresh_resource, [''SHOW CREATE DATABASE `db`''],
              Some (ErrorString ''Error during show create database: Error 1064: refused''))"
proof -
  have m: "Db (meta_of (failing_db n)) = Some (failing_db n)" for n
    by (simp add: meta_of_def)
  have q: "QueryRow_Scan2 (failing_db n) (''SHOW CREATE DATABASE '' @ quoteIdentifier (Id_of fresh_resource))
      = Inl (MySQLError n ''refused'')" for n
    by (simp add: failing_db_def)
  have s: "''SHOW CREATE DATABASE '' @ quoteIdentifier (Id_of fresh_resource) = ''SHOW CREATE DATABASE `db`''"
    by (simp add: quoteIdentifier_def Id_of_def fresh_resource_def backtick_def)
  have i: "Itoa 1064 = ''1064''"
    by code_simp
  show ?thesis
    using ReadDb_unknown_database [OF m q, of 1049 "[]"] ReadDb_unknown_database [OF m q, of 1064 "[]"]
      m [of 1049] m [of 1064] q [of 1049] q [of 1064]
    unfolding s by (simp add: i)
qed

text \<open>
  C6, as stated, fails: when the server refuses the query with error 1064,
  \<open>ReadDb\<close> returns a new error, whose text has a prefix before the text of the
  server's error, not the server's error itself.
\<close>
theorem ReadDb_wraps_error_counterexample:
  "QueryRow_Scan2 (failing_db 1064) ''SHOW CREATE DATABASE `db`'' = Inl (MySQLError 1064 ''refused'')
   \<and> ReadDb fresh_resource (meta_of (failing_db 1064)) []
       = Inr (fresh_resource, [''SHOW CREATE DATABASE `db`''],
              Some (ErrorString ''Error during show create database: Error 1064: refused''))
   \<and> ReadDb fresh_resource (meta_of (failing_db 1064)) []
       \<noteq> Inr (fresh_resource, [''SHOW CREATE DATABASE `db`''], Some (MySQLError 1064 ''refused''))"
proof -
  have i: "Itoa 1064 = ''1064''"
    by code_simp
  have r: "ReadDb fresh_resource (meta_of (failing_db 1064)) []
       = Inr (fresh_resource, [''SHOW CREATE DATABASE `db`''],
              Some (ErrorString ''Error during show create database: Error 1064: refused''))"
    by (simp add: ReadDb_def meta_of_def failing_db_def Let_def Id_of_def fresh_resource_def
        quoteIdentifier_def backtick_def unknownDatabaseErr_def i)
  show ?thesis unfolding r by (simp add: failing_db_def)
qed

lemma ReadDb_lookup:
  assumes "Db meta = Some h"
    and "QueryRow_Scan2 h (''SHOW CREATE DATABASE '' @ quoteIdentifier (Id_of d)) = Inr (database, createSQL)"
    and "extractIdentAfter createSQL defCharSetKey = Inr charset" and "charset \<noteq> []"
    and "extractIdentAfter createSQL defaultCollateKey = Inr []"
    and "mySQLServerVersion h = Inr v" and "mySQLServerVersionString h = Inr vs"
  shows "ReadDb d meta sent =
     (case QueryRow_Scan h showCollationSQL charset
             (if \<not> Contains vs ''MariaDB'' \<and> GreaterThan v requiredVersion then 7 else 6) of
        Inl e \<Rightarrow>
          Inr (d, sent @ [''SHOW CREATE DATABASE '' @ quoteIdentifier (Id_of d), showCollationSQL],
               Some (ErrorString
                 (if e = ErrNoRows then ''Charset '' @ charset @ '' has no default collation''
                  else ''Error getting default charset: '' @ Error e @ '', '' @ charset)))
      | Inr collation \<Rightarrow>
          Inr (ReadDb_store d (Id_of d) charset collation,
               sent @ [''SHOW CREATE DATABASE '' @ quoteIdentifier (Id_of d), showCollationSQL], None))"
  using assms by (simp add: ReadDb_def Let_def bindP_def split: sum.splits)

lemma ReadDb_lookup_success:
  assumes "Db meta = Some h"
    and "QueryRow_Scan2 h (''SHOW CREATE DATABASE '' @ quoteIdentifier (Id_of d)) = Inr (database, createSQL)"
    and "extractIdentAfter createSQL defCharSetKey = Inr charset" and "charset \<noteq> []"
    and "extractIdentAfter createSQL defaultCollateKey = Inr []"
    and "ReadDb d meta sent = Inr (d', sent', None)"
  shows "\<exists>n collation. QueryRow_Scan h showCollationSQL charset n = Inr collation"
proof (cases "mySQLServerVersion h")
  case (Inl e)
  with assms show ?thesis by (simp add: ReadDb_def Let_def bindP_def)
next
  case v: (Inr v)
  show ?thesis
  proof (cases "mySQLServerVersionString h")
    case (Inl e)
    with v assms show ?thesis by (simp add: ReadDb_def Let_def bindP_def)
  next
    case (Inr vs)
    from ReadDb_lookup [OF assms(1-5) v Inr, of sent] assms(6)
    show ?thesis by (auto split: sum.splits)
  qed
qed

text \<open>
  C8: let \<open>ReadDb\<close> find a charset and no collation in the answer to SHOW CREATE
  DATABASE. When the lookup of the default collation returns no rows,
  \<open>ReadDb\<close> returns the error \<open>Charset <charset> has no default collation\<close>;
  and when \<open>ReadDb\<close> returns without error, the lookup has yielded a row.
\<close>
theorem ReadDb_default_collation:
  assumes "Db meta = Some h"
    and "QueryRow_Scan2 h (''SHOW CREATE DATABASE '' @ quoteIdentifier (Id_of d)) = Inr (database, createSQL)"
    and "extractIdentAfter createSQL defCharSetKey = Inr charset" and "charset \<noteq> []"
    and "extractIdentAfter createSQL defaultCollateKey = Inr []"
  shows "(\<forall>v vs. mySQLServerVersion h = Inr v \<longrightarrow> mySQLServerVersionString h = Inr vs \<longrightarrow>
            QueryRow_Scan h showCollationSQL charset
              (if \<not> Contains vs ''MariaDB'' \<and> GreaterThan v requiredVersion then 7 else 6)
              = Inl ErrNoRows \<longrightarrow>
            ReadDb d meta sent
              = Inr (d, sent @ [''SHOW CREATE DATABASE '' @ quoteIdentifier (Id_of d), showCollationSQL],
                     Some (ErrorString (''Charset '' @ charset @ '' has no default collation''))))
       \<and> (\<forall>d' sent'. ReadDb d meta sent = Inr (d', sent', None) \<longrightarrow>
            (\<exists>n collation. QueryRow_Scan h showCollationSQL charset n = Inr collation))"
proof (intro conjI allI impI)
  fix v vs
  assume "mySQLServerVersion h = Inr v" "mySQLServerVersionString h = Inr vs"
    and n: "QueryRow_Scan h showCollationSQL charset
              (if \<not> Contains vs ''MariaDB'' \<and> GreaterThan v requiredVersion then 7 else 6)
              = Inl ErrNoRows"
  from ReadDb_lookup [OF assms this(1,2), of sent]
  show "ReadDb d meta sent
      = Inr (d, sent @ [''SHOW CREATE DATABASE '' @ quoteIdentifier (Id_of d), showCollationSQL],
             Some (ErrorString (''Charset '' @ charset @ '' has no default collation'')))"
    unfolding n by simp
next
  fix d' sent'
  assume "ReadDb d meta sent = Inr (d', sent', None)"
  with assms show "\<exists>n collation. QueryRow_Scan h showCollationSQL charset n = Inr collation"
    by (rule ReadDb_lookup_success)
qed

lemma latin1_extract:
  "extractIdentAfter latin1_createSQL defCharSetKey = Inr ''latin1''"
  "extractIdentAfter latin1_createSQL defaultCollateKey = Inr []"
  by (simp_all add: extractIdentAfter_unfold latin1_createSQL_def defCharSetKey_def
      defaultCollateKey_def)

lemma example_version:
  "(\<not> Contains ''8.0.21'' ''MariaDB'' \<and> GreaterThan [8, 0, 21] requiredVersion) = True"
  by (simp add: Contains_def requiredVersion_def)

text \<open>
  A server whose database has charset \<open>latin1\<close>: without a default collation
  row the read fails, with one it succeeds.
\<close>
theorem ReadDb_default_collation_witness:
  "ReadDb fresh_resource (meta_of latin1_db) []
     = Inr (fresh_resource, [''SHOW CREATE DATABASE `db`'', showCollationSQL],
            Some (ErrorString ''Charset latin1 has no default collation''))
   \<and> ReadDb fresh_resource (meta_of latin1_default_db) []
     = Inr (ReadDb_store fresh_resource ''db'' ''latin1'' ''latin1_swedish_ci'',
            [''SHOW CREATE DATABASE `db`'', showCollationSQL], None)
   \<and> (\<exists>n collation. QueryRow_Scan latin1_default_db showCollationSQL ''latin1'' n = Inr collation)"
proof -
  have s: "''SHOW CREATE DATABASE '' @ quoteIdentifier (Id_of fresh_resource) = ''SHOW CREATE DATABASE `db`''"
    by (simp add: quoteIdentifier_def Id_of_def fresh_resource_def backtick_def)
  have m: "Db (meta_of x) = Some x" for x
    by (simp add: meta_of_def)
  have q1: "QueryRow_Scan2 latin1_db (''SHOW CREATE DATABASE '' @ quoteIdentifier (Id_of fresh_resource))
      = Inr (''db'', latin1_createSQL)"
    by (simp add: latin1_db_def)
  have q2: "QueryRow_Scan2 latin1_default_db (''SHOW CREATE DATABASE '' @ quoteIdentifier (Id_of fresh_resource))
      = Inr (''db'', latin1_createSQL)"
    by (simp add: latin1_default_db_def latin1_db_def)
  have ne: "''latin1'' \<noteq> []" by simp
  have v1: "mySQLServerVersion latin1_db = Inr [8, 0, 21]"
    "mySQLServerVersionString latin1_db = Inr ''8.0.21''"
    "QueryRow_Scan latin1_db showCollationSQL ''latin1'' 7 = Inl ErrNoRows"
    by (simp_all add: latin1_db_def example_db_def)
  have r2: "ReadDb fresh_resource (meta_of latin1_default_db) []
     = Inr (ReadDb_store fresh_resource ''db'' ''latin1'' ''latin1_swedish_ci'',
            [''SHOW CREATE DATABASE `db`'', showCollationSQL], None)"
    using ReadDb_lookup [OF m q2 latin1_extract(1) ne latin1_extract(2), of "[8, 0, 21]" "''8.0.21''" "[]"]
    unfolding s
    by (simp add: latin1_default_db_def latin1_db_def example_db_def example_version
        Id_of_def fresh_resource_def)
  from ReadDb_default_collation [OF m q1 latin1_extract(1) ne latin1_extract(2), of "[]"]
  have a: "ReadDb fresh_resource (meta_of latin1_db) []
     = Inr (fresh_resource, [''SHOW CREATE DATABASE `db`'', showCollationSQL],
            Some (ErrorString ''Charset latin1 has no default collation''))"
    unfolding s using v1 by (simp add: example_version)
  from ReadDb_default_collation [OF m q2 latin1_extract(1) ne latin1_extract(2), of "[]"] r2
  have b: "\<exists>n collation. QueryRow_Scan latin1_default_db showCollationSQL ''latin1'' n = Inr collation"
    by blast
  from a r2 b show ?thesis by simp
qed

text \<open>
  C6, amended: \<open>ReadDb\<close> returns an error of its SHOW CREATE DATABASE query,
  other than MySQL error 1049, as a new error whose text is
  \<open>Error during show create database: \<close> followed by the text of the error; it
  returns an error of either server-version helper itself, unchanged; and it
  returns an error of the default-collation lookup, other than
  \<open>sql.ErrNoRows\<close>, as a new error whose text is
  \<open>Error getting default charset: \<close> followed by the text of the error, a comma
  and the charset. In each case every statement is sent once, none again.
\<close>

theorem sql_errors_surface:
  assumes "Db meta = Some h"
  shows
   "(QueryRow_Scan2 h (''SHOW CREATE DATABASE '' @ quoteIdentifier (Id_of d)) = Inl err \<longrightarrow>
      (\<forall>message. err \<noteq> MySQLError unknownDatabaseErr message) \<longrightarrow>
      ReadDb d meta sent
        = Inr (d, sent @ [''SHOW CREATE DATABASE '' @ quoteIdentifier (Id_of d)],
               Some (ErrorString (''Error during show create database: '' @ Error err))))
   \<and> (QueryRow_Scan2 h (''SHOW CREATE DATABASE '' @ quoteIdentifier (Id_of d))
        = Inr (database, createSQL) \<longrightarrow>
      extractIdentAfter createSQL defCharSetKey = Inr charset \<longrightarrow> charset \<noteq> [] \<longrightarrow>
      extractIdentAfter createSQL defaultCollateKey = Inr [] \<longrightarrow>
        (mySQLServerVersion h = Inl err \<longrightarrow>
           ReadDb d meta sent
             = Inr (d, sent @ [''SHOW CREATE DATABASE '' @ quoteIdentifier (Id_of d)], Some err))
      \<and> (mySQLServerVersion h = Inr v \<longrightarrow> mySQLServerVersionString h = Inl err \<longrightarrow>
           ReadDb d meta sent
             = Inr (d, sent @ [''SHOW CREATE DATABASE '' @ quoteIdentifier (Id_of d)], Some err))
      \<and> (mySQLServerVersion h = Inr v \<longrightarrow> mySQLServerVersionString h = Inr vs \<longrightarrow>
           QueryRow_Scan h showCollationSQL charset
             (if \<not> Contains vs ''MariaDB'' \<and> GreaterThan v requiredVersion then 7 else 6)
             = Inl err \<longrightarrow>
           err \<noteq> ErrNoRows \<longrightarrow>
           ReadDb d meta sent
             = Inr (d, sent @ [''SHOW CREATE DATABASE '' @ quoteIdentifier (Id_of d),
                               showCollationSQL],
                    Some (ErrorString (''Error getting default charset: '' @ Error err @ '', ''
                                         @ charset)))))"
proof -
  let ?show = "''SHOW CREATE DATABASE '' @ quoteIdentifier (Id_of d)"
  have a: "ReadDb d meta sent
        = Inr (d, sent @ [?show],
               Some (ErrorString (''Error during show create database: '' @ Error err)))"
    if "QueryRow_Scan2 h ?show = Inl err"
      "\<forall>message. err \<noteq> MySQLError unknownDatabaseErr message"
    using ReadDb_query_error [OF assms that(1), of sent] that(2) by simp
  have b: "ReadDb d meta sent = Inr (d, sent @ [?show], Some err)"
    if "QueryRow_Scan2 h ?show = Inr (database, createSQL)"
      "extractIdentAfter createSQL defCharSetKey = Inr charset" "charset \<noteq> []"
      "extractIdentAfter createSQL defaultCollateKey = Inr []"
      "mySQLServerVersion h = Inl err"
    using assms that by (simp add: ReadDb_def Let_def bindP_def)
  have c: "ReadDb d meta sent = Inr (d, sent @ [?show], Some err)"
    if "QueryRow_Scan2 h ?show = Inr (database, createSQL)"
      "extractIdentAfter createSQL defCharSetKey = Inr charset" "charset \<noteq> []"
      "extractIdentAfter createSQL defaultCollateKey = Inr []"
      "mySQLServerVersion h = Inr v" "mySQLServerVersionString h = Inl err"
    using assms that by (simp add: ReadDb_def Let_def bindP_def)
  have e: "ReadDb d meta sent
        = Inr (d, sent @ [?show, showCollationSQL],
               Some (ErrorString (''Error getting default charset: '' @ Error err @ '', '' @ charset)))"
    if "QueryRow_Scan2 h ?show = Inr (database, createSQL)"
      "extractIdentAfter createSQL defCharSetKey = Inr charset" "charset \<noteq> []"
      "extractIdentAfter createSQL defaultCollateKey = Inr []"
      "mySQLServerVersion h = Inr v" "mySQLServerVersionString h = Inr vs"
      "QueryRow_Scan h showCollationSQL charset
        (if \<not> Contains vs ''MariaDB'' \<and> GreaterThan v requiredVersion then 7 else 6) = Inl err"
      "err \<noteq> ErrNoRows"
    using ReadDb_lookup [OF assms that(1-6), of sent] that(8) unfolding that(7) by simp
  from a b c e show ?thesis by blast
qed

text \<open>
  A server that refuses every statement with error 1064, servers on which one
  of the version helpers fails, and one that refuses the collation lookup with
  error 1227.
\<close>

theorem sql_errors_surface_witness:
  "ReadDb fresh_resource (meta_of (failing_db 1064)) []
     = Inr (fresh_resource, [''SHOW CREATE DATABASE `db`''],
            Some (ErrorString ''Error during show create database: Error 1064: refused''))
   \<and> ReadDb fresh_resource (meta_of version_failing_db) []
     = Inr (fresh_resource, [''SHOW CREATE DATABASE `db`''],
            Some (MySQLError 2006 ''MySQL server has gone away''))
   \<and> ReadDb fresh_resource (meta_of version_string_failing_db) []
     = Inr (fresh_resource, [''SHOW CREATE DATABASE `db`''],
            Some (MySQLError 2006 ''MySQL server has gone away''))
   \<and> ReadDb fresh_resource (meta_of lookup_failing_db) []
     = Inr (fresh_resource, [''SHOW CREATE DATABASE `db`'', showCollationSQL],
            Some (ErrorString ''Error getting default charset: Error 1227: Access denied, latin1''))"
proof -
  have s: "''SHOW CREATE DATABASE '' @ quoteIdentifier (Id_of fresh_resource) = ''SHOW CREATE DATABASE `db`''"
    by (simp add: quoteIdentifier_def Id_of_def fresh_resource_def backtick_def)
  have m: "Db (meta_of x) = Some x" for x
    by (simp add: meta_of_def)
  have i: "Itoa 1064 = ''1064''" "Itoa 1227 = ''1227''"
    by code_simp+
  have q: "QueryRow_Scan2 (failing_db 1064) (''SHOW CREATE DATABASE '' @ quoteIdentifier (Id_of fresh_resource))
      = Inl (MySQLError 1064 ''refused'')"
    by (simp add: failing_db_def)
  have k: "MySQLError 1064 ''refused'' \<noteq> MySQLError unknownDatabaseErr message" for message
    by (simp add: unknownDatabaseErr_def)
  have ql: "QueryRow_Scan2 x (''SHOW CREATE DATABASE '' @ quoteIdentifier (Id_of fresh_resource))
      = Inr (''db'', latin1_createSQL)"
    if "x = version_failing_db \<or> x = version_string_failing_db \<or> x = lookup_failing_db" for x
    using that
    by (auto simp: version_failing_db_def version_string_failing_db_def lookup_failing_db_def
        latin1_db_def)
  have ne: "''latin1'' \<noteq> []" by simp
  have v1: "mySQLServerVersion version_failing_db = Inl (MySQLError 2006 ''MySQL server has gone away'')"
    by (simp add: version_failing_db_def)
  have v2: "mySQLServerVersion version_string_failing_db = Inr [8, 0, 21]"
    "mySQLServerVersionString version_string_failing_db
       = Inl (MySQLError 2006 ''MySQL server has gone away'')"
    by (simp_all add: version_string_failing_db_def latin1_db_def example_db_def)
  have v3: "mySQLServerVersion lookup_failing_db = Inr [8, 0, 21]"
    "mySQLServerVersionString lookup_failing_db = Inr ''8.0.21''"
    by (simp_all add: lookup_failing_db_def latin1_db_def example_db_def)
  have l3: "QueryRow_Scan lookup_failing_db showCollationSQL ''latin1''
      (if \<not> Contains ''8.0.21'' ''MariaDB'' \<and> GreaterThan [8, 0, 21] requiredVersion then 7 else 6)
      = Inl (MySQLError 1227 ''Access denied'')"
    by (simp add: lookup_failing_db_def)
  have n3: "MySQLError 1227 ''Access denied'' \<noteq> ErrNoRows" by simp
  have a: "ReadDb fresh_resource (meta_of (failing_db 1064)) []
     = Inr (fresh_resource, [''SHOW CREATE DATABASE `db`''],
            Some (ErrorString ''Error during show create database: Error 1064: refused''))"
    using sql_errors_surface [OF m, THEN conjunct1, rule_format, OF q k, of "[]"]
    unfolding s by (simp add: i)
  have b: "ReadDb fresh_resource (meta_of version_failing_db) []
     = Inr (fresh_resource, [''SHOW CREATE DATABASE `db`''],
            Some (MySQLError 2006 ''MySQL server has gone away''))"
    using sql_errors_surface [OF m, THEN conjunct2, rule_format, THEN conjunct1, rule_format,
        OF ql latin1_extract(1) ne latin1_extract(2) v1, of "[]"]
    unfolding s by simp
  have c: "ReadDb fresh_resource (meta_of version_string_failing_db) []
     = Inr (fresh_resource, [''SHOW CREATE DATABASE `db`''],
            Some (MySQLError 2006 ''MySQL server has gone away''))"
    using sql_errors_surface [OF m, THEN conjunct2, rule_format, THEN conjunct2, THEN conjunct1,
        rule_format, OF ql latin1_extract(1) ne latin1_extract(2) v2, of "[]"]
    unfolding s by simp
  have e: "ReadDb fresh_resource (meta_of lookup_failing_db) []
     = Inr (fresh_resource, [''SHOW CREATE DATABASE `db`'', showCollationSQL],
            Some (ErrorString ''Error getting default charset: Error 1227: Access denied, latin1''))"
    using sql_errors_surface [OF m, THEN conjunct2, rule_format, THEN conjunct2, THEN conjunct2,
        rule_format, OF ql latin1_extract(1) ne latin1_extract(2) v3 l3 n3, of "[]"]
    unfolding s by (simp add: i)
  from a b c e show ?thesis by simp
qed

end
